theory Spec2Isabelle
  imports Main "HOL-Library.Sublist"
begin

section \<open>Data model\<close>

text \<open>
  The registry package's \<^verbatim>\<open>Check\<close> and \<^verbatim>\<open>Service\<close> structs, with the fields that
  \<^verbatim>\<open>mesos/register.go\<close> sets. A field that a struct literal leaves out has Go's zero
  value: \<open>0\<close> for \<open>Port\<close>, the empty string for a string, \<open>None\<close> for a nil pointer.
\<close>

record Check =
  HTTP :: string
  Interval :: string

record Service =
  ID :: string
  Name :: string
  Port :: int
  Address :: string
  Agent :: string
  Tags :: "string list"
  Check :: "Check option"

text \<open>The context handed to the health-check builder (\<^verbatim>\<open>CheckVar\<close>).\<close>

record CheckVar =
  CheckVar_Host :: string
  CheckVar_Port :: string

text \<open>
  The cluster-state snapshot (package \<^verbatim>\<open>state\<close>): labels are an ordered list of key/value
  pairs, as the test helper \<^verbatim>\<open>labels\<close> builds them.
\<close>

record Label =
  Key :: string
  Value :: string

record DiscoveryPort =
  DiscoveryPort_Name :: string
  DiscoveryPort_Number :: int
  DiscoveryPort_Labels :: "Label list"

record Ports =
  DiscoveryPorts :: "DiscoveryPort list"

record DiscoveryInfo =
  DiscoveryInfo_Name :: string
  DiscoveryInfo_Ports :: Ports

record Task =
  Task_ID :: string
  Task_Name :: string
  Task_Labels :: "Label list"
  Task_DiscoveryInfo :: DiscoveryInfo

record PID =
  PID_Host :: string
  PID_Port :: string

record Slave =
  Slave_ID :: string
  Slave_Hostname :: string
  Slave_PID :: PID

record State =
  Slaves :: "Slave list"

text \<open>A control-plane node as \<^verbatim>\<open>getMasters\<close> returns it (\<^verbatim>\<open>MesosHost\<close>).\<close>

record MesosHost =
  MesosHost_Ip :: string
  MesosHost_Port :: int
  MesosHost_PortString :: string
  MesosHost_IsLeader :: bool

text \<open>
  The registry client is an interface behind which the core sees nothing. Every call made
  on it is recorded, in order, with its arguments as they are at the time of the call.
\<close>

datatype call =
    Call_CacheLookup string
  | Call_CacheMark string
  | Call_CacheDelete string
  | Call_Register Service

text \<open>
  The receiver \<^verbatim>\<open>*Mesos\<close>. \<open>Registry\<close> holds the history of the calls made on the
  registry client so far. \<open>taskTag\<close> is a Go map from pattern to tags; the list gives
  its entries in the order in which the \<^verbatim>\<open>range\<close> loop visits them, which Go leaves
  unspecified.
\<close>

record Mesos =
  Registry :: "call list"
  Agents :: "string \<rightharpoonup> string"
  ServiceIdPrefix :: string
  ServiceName :: string
  ServiceTags :: "string list"
  Separator :: string
  IpOrder :: "string list"
  taskTag :: "(string \<times> string list) list"

text \<open>
  The collaborators that \<^verbatim>\<open>register.go\<close> calls and that live outside it are parameters of
  the model:
  \<^item> \<open>CacheLookup\<close>: the registry client's answer to a lookup, as a function of the calls
    made on it so far and of the identifier;
  \<^item> \<open>toIP\<close>, \<open>toPort\<close>, \<open>cleanName\<close>, \<open>GetCheck\<close>: helpers of package \<^verbatim>\<open>mesos\<close>
    defined in other files;
  \<^item> \<open>Allowed\<close>: the allow-list check \<^verbatim>\<open>m.TaskPrivilege.Allowed\<close>;
  \<^item> \<open>IP\<close>: the address resolution \<^verbatim>\<open>t.IP(m.IpOrder...)\<close>.
  Each is a function of its arguments: \<open>toIP\<close>, which resolves a host name, gives the same
  answer for the same name within one call of the reconciler.
\<close>

record env =
  CacheLookup :: "call list \<Rightarrow> string \<Rightarrow> Service option"
  toIP :: "string \<Rightarrow> string"
  toPort :: "string \<Rightarrow> int"
  cleanName :: "string \<Rightarrow> string \<Rightarrow> string"
  Allowed :: "string \<Rightarrow> bool"
  IP :: "Task \<Rightarrow> string list \<Rightarrow> string"
  GetCheck :: "Task \<Rightarrow> CheckVar \<Rightarrow> Check option"

section \<open>Go library functions and label lookup\<close>

text \<open>
  \<^verbatim>\<open>strings.ToLower\<close> on ASCII letters (a byte outside \<open>A\<close>..\<open>Z\<close> is left as it is),
  \<^verbatim>\<open>strings.Contains\<close>, \<^verbatim>\<open>strings.Split\<close> with a one-character separator, and
  \<^verbatim>\<open>strconv.Itoa\<close>, which prints what the verb \<^verbatim>\<open>%d\<close> prints.
\<close>

definition toLower_char :: "char \<Rightarrow> char" where
  "toLower_char c =
     (let n = (of_char c :: nat) in if 65 \<le> n \<and> n \<le> 90 then char_of (n + 32) else c)"

definition ToLower :: "string \<Rightarrow> string" where
  "ToLower s = map toLower_char s"

fun Contains :: "string \<Rightarrow> string \<Rightarrow> bool" where
  "Contains [] substr = (substr = [])"
| "Contains (c # cs) substr = (prefix substr (c # cs) \<or> Contains cs substr)"

fun Split :: "string \<Rightarrow> char \<Rightarrow> string list" where
  "Split [] sep = [[]]"
| "Split (c # cs) sep =
     (if c = sep then [] # Split cs sep
      else (case Split cs sep of
              [] \<Rightarrow> [[c]]
            | w # ws \<Rightarrow> (c # w) # ws))"

definition digitChar :: "nat \<Rightarrow> char" where
  "digitChar d = ''0123456789'' ! d"

function digits :: "nat \<Rightarrow> string" where
  "digits n =
     (if n < 10 then [digitChar n]
      else digits (n div 10) @ [digitChar (n mod 10)])"
  by pat_completeness auto
termination
  by (relation "measure (\<lambda>n. n)") auto

declare digits.simps [simp del]

definition Itoa :: "int \<Rightarrow> string" where
  "Itoa i = (if i < 0 then CHR ''-'' # digits (nat (- i)) else digits (nat i))"

text \<open>
  Modelled from the spec: \<^verbatim>\<open>state.Task.Label\<close> is not under src/. The labels are an
  ordered list of key/value pairs whose keys need not be unique, and the first match of a
  key wins; the lookup fails (\<open>None\<close>) when no label has the key. The test
  \<^verbatim>\<open>TestRegisterTask\<close> confirms that a label with an empty value is found.
\<close>

fun labelValue :: "Label list \<Rightarrow> string \<Rightarrow> string option" where
  "labelValue [] name = None"
| "labelValue (l # ls) name = (if Key l = name then Some (Value l) else labelValue ls name)"

definition Task_Label :: "Task \<Rightarrow> string \<Rightarrow> string option" where
  "Task_Label t name = labelValue (Task_Labels t) name"

text \<open>
  Modelled from the spec: \<^verbatim>\<open>state.DiscoveryPort.Label\<close> is not under src/. A discovery
  port has its own labels; the lookup returns the value, and the empty string when no
  label has the key (the caller tests the result against \<^verbatim>\<open>""\<close>).
\<close>

definition DiscoveryPort_Label :: "DiscoveryPort \<Rightarrow> string \<Rightarrow> string" where
  "DiscoveryPort_Label d name =
     (case labelValue (DiscoveryPort_Labels d) name of None \<Rightarrow> [] | Some v \<Rightarrow> v)"

text \<open>
  Modelled from the spec: \<^verbatim>\<open>sliceContainsString\<close> is not under src/. It tells whether the
  tag is already present in the slice.
\<close>

definition sliceContainsString :: "string list \<Rightarrow> string \<Rightarrow> bool" where
  "sliceContainsString slice s = (s \<in> set slice)"

text \<open>
  Modelled from the spec: \<^verbatim>\<open>sliceEq\<close> is not under src/. Section 4.6 of the spec: two tag
  sequences are equal when they are set-equal, order-insensitive, with no duplicates
  permitted in either side. A sequence with a repeated tag is therefore equal to no
  sequence.
\<close>

definition sliceEq :: "string list \<Rightarrow> string list \<Rightarrow> bool" where
  "sliceEq a b = (distinct a \<and> distinct b \<and> set a = set b)"

section \<open>Registry calls\<close>

definition Registry_CacheLookup :: "env \<Rightarrow> Mesos \<Rightarrow> string \<Rightarrow> Service option \<times> Mesos" where
  "Registry_CacheLookup E m i =
     (CacheLookup E (Registry m) i, m\<lparr>Registry := Registry m @ [Call_CacheLookup i]\<rparr>)"

definition Registry_CacheMark :: "Mesos \<Rightarrow> string \<Rightarrow> Mesos" where
  "Registry_CacheMark m i = m\<lparr>Registry := Registry m @ [Call_CacheMark i]\<rparr>"

definition Registry_CacheDelete :: "Mesos \<Rightarrow> string \<Rightarrow> Mesos" where
  "Registry_CacheDelete m i = m\<lparr>Registry := Registry m @ [Call_CacheDelete i]\<rparr>"

definition Registry_Register :: "Mesos \<Rightarrow> Service \<Rightarrow> Mesos" where
  "Registry_Register m s = m\<lparr>Registry := Registry m @ [Call_Register s]\<rparr>"

section \<open>registerHost\<close>

definition registerHost :: "env \<Rightarrow> Mesos \<Rightarrow> Service \<Rightarrow> Mesos" where
  "registerHost E m s =
     (case Registry_CacheLookup E m (ID s) of
        (None, m1) \<Rightarrow> Registry_Register m1 s
      | (Some h, m1) \<Rightarrow>
          if sliceEq (Tags s) (Tags h) then Registry_CacheMark m1 (ID s)
          else Registry_Register (Registry_CacheDelete m1 (ID s)) s)"

text \<open>Telling the Register calls in a history from the cache calls.\<close>

fun isRegister :: "call \<Rightarrow> bool" where
  "isRegister (Call_Register s) = True"
| "isRegister c = False"

text \<open>
  A sample environment and a sample receiver for running the model on concrete inputs:
  an address literal resolves to itself, a name that is already clean stays as it is,
  every name but one is allowed, and the cache holds one host entry.
\<close>

definition sampleHost :: Service where
  "sampleHost = \<lparr>ID = ''mc:mesos:10.0.0.1:5050'', Name = ''mesos'', Port = 5050,
     Address = ''10.0.0.1'', Agent = ''10.0.0.1'', Tags = [''master'', ''leader''],
     Check = None\<rparr>"

definition sampleEnv :: env where
  "sampleEnv = \<lparr>
     CacheLookup = (\<lambda>h i. if i = ID sampleHost then Some sampleHost else None),
     toIP = (\<lambda>h. h),
     toPort = (\<lambda>p. if p = ''5051'' then 5051 else if p = ''8080'' then 8080 else 0),
     cleanName = (\<lambda>n sep. n),
     Allowed = (\<lambda>n. n \<noteq> ''secret''),
     IP = (\<lambda>t order. ''192.168.1.10''),
     GetCheck = (\<lambda>t cv. None)\<rparr>"

definition sampleMesos :: Mesos where
  "sampleMesos = \<lparr>Registry = [], Agents = Map.empty, ServiceIdPrefix = ''mc'',
     ServiceName = ''mesos'', ServiceTags = [], Separator = ''-'', IpOrder = [],
     taskTag = []\<rparr>"

definition sampleState :: State where
  "sampleState = \<lparr>Slaves = [\<lparr>Slave_ID = ''agent-1'', Slave_Hostname = ''worker1'',
     Slave_PID = \<lparr>PID_Host = ''10.0.0.5'', PID_Port = ''5051''\<rparr>\<rparr>]\<rparr>"

definition sampleMasters :: "MesosHost list" where
  "sampleMasters =
     [\<lparr>MesosHost_Ip = ''10.0.0.1'', MesosHost_Port = 5050, MesosHost_PortString = ''5050'',
       MesosHost_IsLeader = True\<rparr>,
      \<lparr>MesosHost_Ip = ''10.0.0.2'', MesosHost_Port = 5050, MesosHost_PortString = ''5050'',
       MesosHost_IsLeader = False\<rparr>]"

definition sampleTask :: Task where
  "sampleTask = \<lparr>Task_ID = ''web'', Task_Name = ''web'', Task_Labels = [],
     Task_DiscoveryInfo = \<lparr>DiscoveryInfo_Name = [],
       DiscoveryInfo_Ports = \<lparr>DiscoveryPorts = []\<rparr>\<rparr>\<rparr>"

definition samplePort :: DiscoveryPort where
  "samplePort = \<lparr>DiscoveryPort_Name = ''http'', DiscoveryPort_Number = 8080,
     DiscoveryPort_Labels = [\<lparr>Key = ''tags'', Value = ''a,b''\<rparr>]\<rparr>"

definition sampleNamedTask :: Task where
  "sampleNamedTask = sampleTask\<lparr>Task_DiscoveryInfo := \<lparr>DiscoveryInfo_Name = ''web'',
     DiscoveryInfo_Ports = \<lparr>DiscoveryPorts = [samplePort,
       \<lparr>DiscoveryPort_Name = [], DiscoveryPort_Number = 9090, DiscoveryPort_Labels = []\<rparr>]\<rparr>\<rparr>\<rparr>"

text \<open>
  The entry that registerTask builds for \<open>sampleTask\<close> on the agent \<open>agent1\<close>, and an
  environment whose cache already holds that entry.
\<close>

definition sampleTaskEntry :: Service where
  "sampleTaskEntry = \<lparr>ID = ''mc:agent1-web:192.168.1.10'', Name = ''web'', Port = 0,
     Address = ''192.168.1.10'', Agent = ''agent1'', Tags = [], Check = None\<rparr>"

definition sampleTaskEnv :: env where
  "sampleTaskEnv = sampleEnv\<lparr>CacheLookup :=
     (\<lambda>h i. if i = ID sampleTaskEntry then Some sampleTaskEntry else None)\<rparr>"

section \<open>agentTags\<close>

fun agentTags_roles :: "string \<Rightarrow> string list \<Rightarrow> string list \<Rightarrow> string list" where
  "agentTags_roles tag [] rval = rval"
| "agentTags_roles tag (t # ts) rval = agentTags_roles tag ts (rval @ [t @ ''.'' @ tag])"

fun agentTags_loop :: "string list \<Rightarrow> string list \<Rightarrow> string list \<Rightarrow> string list" where
  "agentTags_loop [] ts rval = rval"
| "agentTags_loop (tag # tags) ts rval = agentTags_loop tags ts (agentTags_roles tag ts rval)"

definition agentTags :: "Mesos \<Rightarrow> string list \<Rightarrow> string list" where
  "agentTags m ts =
     (if length (ServiceTags m) = 0 then ts else agentTags_loop (ServiceTags m) ts [])"

section \<open>buildRegisterTaskTags\<close>

fun taskTags_loop :: "string \<Rightarrow> string \<Rightarrow> string list \<Rightarrow> string list \<Rightarrow> string list" where
  "taskTags_loop tnameLower pattern [] result = result"
| "taskTags_loop tnameLower pattern (tag # tags) result =
     taskTags_loop tnameLower pattern tags
       (if Contains tnameLower pattern then
          (if \<not> sliceContainsString result tag then result @ [tag] else result)
        else result)"

fun taskTag_loop :: "string \<Rightarrow> (string \<times> string list) list \<Rightarrow> string list \<Rightarrow> string list" where
  "taskTag_loop tnameLower [] result = result"
| "taskTag_loop tnameLower ((pattern, taskTags) # rest) result =
     taskTag_loop tnameLower rest (taskTags_loop tnameLower pattern taskTags result)"

definition buildRegisterTaskTags ::
  "string \<Rightarrow> string list \<Rightarrow> (string \<times> string list) list \<Rightarrow> string list" where
  "buildRegisterTaskTags taskName startingTags tt =
     taskTag_loop (ToLower taskName) tt startingTags"

section \<open>RegisterHosts\<close>

text \<open>The service that the loop over the slaves builds for the slave \<open>f\<close>.\<close>

definition slaveService :: "env \<Rightarrow> Mesos \<Rightarrow> Slave \<Rightarrow> Service" where
  "slaveService E m f =
     (let agent = toIP E (PID_Host (Slave_PID f));
          port = toPort E (PID_Port (Slave_PID f))
      in \<lparr>ID = ServiceIdPrefix m @ '':'' @ ServiceName m @ '':'' @ Slave_ID f @ '':''
                @ Slave_Hostname f,
           Name = ServiceName m,
           Port = port,
           Address = agent,
           Agent = agent,
           Tags = agentTags m [''agent'', ''follower''],
           Check = Some \<lparr>HTTP = ''http://'' @ agent @ '':'' @ Itoa port @ ''/slave(1)/health'',
                          Interval = ''10s''\<rparr>\<rparr>)"

fun RegisterHosts_slaves :: "env \<Rightarrow> Slave list \<Rightarrow> Mesos \<Rightarrow> Mesos" where
  "RegisterHosts_slaves E [] m = m"
| "RegisterHosts_slaves E (f # fs) m =
     (let agent = toIP E (PID_Host (Slave_PID f));
          m1 = m\<lparr>Agents := (Agents m)(Slave_ID f \<mapsto> agent)\<rparr>;
          m2 = registerHost E m1 (slaveService E m1 f)
      in RegisterHosts_slaves E fs m2)"

text \<open>The service that the loop over the masters builds for the master \<open>ma\<close>.\<close>

definition masterService :: "Mesos \<Rightarrow> MesosHost \<Rightarrow> Service" where
  "masterService m ma =
     (let tags = (if MesosHost_IsLeader ma then agentTags m [''leader'', ''master'']
                  else agentTags m [''master''])
      in \<lparr>ID = ServiceIdPrefix m @ '':'' @ ServiceName m @ '':'' @ MesosHost_Ip ma @ '':''
                @ MesosHost_PortString ma,
           Name = ServiceName m,
           Port = MesosHost_Port ma,
           Address = MesosHost_Ip ma,
           Agent = MesosHost_Ip ma,
           Tags = tags,
           Check = Some \<lparr>HTTP = ''http://'' @ MesosHost_Ip ma @ '':'' @ Itoa (MesosHost_Port ma)
                                 @ ''/master/health'',
                          Interval = ''10s''\<rparr>\<rparr>)"

fun RegisterHosts_masters :: "env \<Rightarrow> MesosHost list \<Rightarrow> Mesos \<Rightarrow> Mesos" where
  "RegisterHosts_masters E [] m = m"
| "RegisterHosts_masters E (ma # mas) m =
     RegisterHosts_masters E mas (registerHost E m (masterService m ma))"

text \<open>
  \<open>mas\<close> is what \<^verbatim>\<open>m.getMasters()\<close> returns, the control-plane nodes; \<^verbatim>\<open>getMasters\<close> is
  defined in another file.
\<close>

definition RegisterHosts :: "env \<Rightarrow> Mesos \<Rightarrow> State \<Rightarrow> MesosHost list \<Rightarrow> Mesos" where
  "RegisterHosts E m s mas =
     RegisterHosts_masters E mas (RegisterHosts_slaves E (Slaves s) (m\<lparr>Agents := Map.empty\<rparr>))"

section \<open>registerTask\<close>

datatype error = errorString string

text \<open>
  The three services that registerTask builds: for the first discovery port, for a named
  discovery port, and for a task without discovery name.
\<close>

definition firstPortService ::
  "env \<Rightarrow> Task \<Rightarrow> string \<Rightarrow> string \<Rightarrow> string \<Rightarrow> string list \<Rightarrow> DiscoveryPort \<Rightarrow> Service" where
  "firstPortService E t agent tname address tags discoveryPort =
     (let servicePort = Itoa (DiscoveryPort_Number discoveryPort)
      in \<lparr>ID = ''mesos-consul:'' @ agent @ '':'' @ tname @ '':'' @ servicePort,
           Name = tname,
           Port = toPort E servicePort,
           Address = address,
           Agent = toIP E agent,
           Tags = tags,
           Check = GetCheck E t \<lparr>CheckVar_Host = toIP E address, CheckVar_Port = servicePort\<rparr>\<rparr>)"

definition namedPortService ::
  "env \<Rightarrow> Mesos \<Rightarrow> Task \<Rightarrow> string \<Rightarrow> string \<Rightarrow> string \<Rightarrow> string list \<Rightarrow> DiscoveryPort
     \<Rightarrow> Service" where
  "namedPortService E m t agent tname address tags discoveryPort =
     (let serviceName = DiscoveryPort_Name discoveryPort;
          servicePort = Itoa (DiscoveryPort_Number discoveryPort);
          pl = DiscoveryPort_Label discoveryPort ''tags'';
          porttags = (if pl \<noteq> [] then Split (DiscoveryPort_Label discoveryPort ''tags'') CHR '',''
                      else []);
          named_service = cleanName E (tname @ ''-'' @ DiscoveryPort_Name discoveryPort) (Separator m)
      in \<lparr>ID = ServiceIdPrefix m @ '':'' @ agent @ '':'' @ tname @ '':'' @ address @ '':''
                @ Itoa (DiscoveryPort_Number discoveryPort),
           Name = named_service,
           Port = toPort E servicePort,
           Address = address,
           Agent = toIP E agent,
           Tags = (tags @ [serviceName]) @ porttags,
           Check = GetCheck E t \<lparr>CheckVar_Host = toIP E address, CheckVar_Port = servicePort\<rparr>\<rparr>)"

definition noPortService ::
  "env \<Rightarrow> Mesos \<Rightarrow> Task \<Rightarrow> string \<Rightarrow> string \<Rightarrow> string \<Rightarrow> string list \<Rightarrow> Service" where
  "noPortService E m t agent tname address tags =
     \<lparr>ID = ServiceIdPrefix m @ '':'' @ agent @ ''-'' @ tname @ '':'' @ address,
      Name = tname,
      Port = 0,
      Address = address,
      Agent = toIP E agent,
      Tags = tags,
      Check = GetCheck E t \<lparr>CheckVar_Host = toIP E address, CheckVar_Port = []\<rparr>\<rparr>"

fun registerTask_ports ::
  "env \<Rightarrow> Task \<Rightarrow> string \<Rightarrow> string \<Rightarrow> string \<Rightarrow> string list \<Rightarrow> nat \<Rightarrow> DiscoveryPort list
     \<Rightarrow> Mesos \<Rightarrow> Mesos" where
  "registerTask_ports E t agent tname address tags key [] m = m"
| "registerTask_ports E t agent tname address tags key (discoveryPort # rest) m =
     (let m1 = (if key = 0 then
                  Registry_Register m (firstPortService E t agent tname address tags discoveryPort)
                else m);
          m2 = (if DiscoveryPort_Name discoveryPort \<noteq> [] then
                  Registry_Register m1
                    (namedPortService E m1 t agent tname address tags discoveryPort)
                else m1)
      in registerTask_ports E t agent tname address tags (Suc key) rest m2)"

definition registerTask :: "env \<Rightarrow> Mesos \<Rightarrow> Task \<Rightarrow> string \<Rightarrow> error option \<times> Mesos" where
  "registerTask E m t agent =
     (if Task_Label t ''consul'' \<noteq> None then
        (Some (errorString ''Application with consul label''), m)
      else
        let tname = (case Task_Label t ''overrideTaskName'' of
                       Some v \<Rightarrow> cleanName E v (Separator m)
                     | None \<Rightarrow> cleanName E (Task_ID t) (Separator m))
        in if \<not> Allowed E tname then
             (Some (errorString ''Task not allowed to be registered''), m)
           else
             let address = IP E t (IpOrder m);
                 tags0 = (case Task_Label t ''tags'' of
                            Some l \<Rightarrow> Split l CHR '',''
                          | None \<Rightarrow> []);
                 tags = buildRegisterTaskTags tname tags0 (taskTag m)
             in if DiscoveryInfo_Name (Task_DiscoveryInfo t) \<noteq> [] then
                  (None, registerTask_ports E t agent tname address tags 0
                           (DiscoveryPorts (DiscoveryInfo_Ports (Task_DiscoveryInfo t))) m)
                else
                  (None, Registry_Register m (noPortService E m t agent tname address tags)))"

section \<open>The cache-diff decision\<close>

text \<open>
  C1. registerHost looks the desired entry up in the registry cache once. If the cache has
  no entry with that identifier, exactly one Register call follows, and no CacheMark or
  CacheDelete call. If a cached entry exists and its tag sequence is set-equal to the
  desired entry's tags (the same set of tags in any order, no tag repeated on either
  side), exactly one CacheMark call follows and no Register call. If a cached entry exists
  and the tags differ (they are not set-equal in that sense), exactly one CacheDelete call
  is followed by exactly one Register call. Nothing but the call history changes.
\<close>

theorem registerHost_decision:
  "(CacheLookup E (Registry m) (ID s) = None \<longrightarrow>
      registerHost E m s =
        m\<lparr>Registry := Registry m @ [Call_CacheLookup (ID s), Call_Register s]\<rparr>)
   \<and> (\<forall>h. CacheLookup E (Registry m) (ID s) = Some h
          \<and> distinct (Tags s) \<and> distinct (Tags h) \<and> set (Tags s) = set (Tags h) \<longrightarrow>
      registerHost E m s =
        m\<lparr>Registry := Registry m @ [Call_CacheLookup (ID s), Call_CacheMark (ID s)]\<rparr>)
   \<and> (\<forall>h. CacheLookup E (Registry m) (ID s) = Some h
          \<and> \<not> (distinct (Tags s) \<and> distinct (Tags h) \<and> set (Tags s) = set (Tags h)) \<longrightarrow>
      registerHost E m s =
        m\<lparr>Registry := Registry m @
           [Call_CacheLookup (ID s), Call_CacheDelete (ID s), Call_Register s]\<rparr>)"
proof (intro conjI allI impI)
  assume "CacheLookup E (Registry m) (ID s) = None"
  then show "registerHost E m s =
        m\<lparr>Registry := Registry m @ [Call_CacheLookup (ID s), Call_Register s]\<rparr>"
    by (simp add: registerHost_def Registry_CacheLookup_def Registry_Register_def)
next
  fix h
  assume "CacheLookup E (Registry m) (ID s) = Some h
          \<and> distinct (Tags s) \<and> distinct (Tags h) \<and> set (Tags s) = set (Tags h)"
  then have "CacheLookup E (Registry m) (ID s) = Some h" and "sliceEq (Tags s) (Tags h)"
    by (simp_all add: sliceEq_def)
  then show "registerHost E m s =
        m\<lparr>Registry := Registry m @ [Call_CacheLookup (ID s), Call_CacheMark (ID s)]\<rparr>"
    by (simp add: registerHost_def Registry_CacheLookup_def Registry_CacheMark_def)
next
  fix h
  assume "CacheLookup E (Registry m) (ID s) = Some h
          \<and> \<not> (distinct (Tags s) \<and> distinct (Tags h) \<and> set (Tags s) = set (Tags h))"
  then have "CacheLookup E (Registry m) (ID s) = Some h" and "\<not> sliceEq (Tags s) (Tags h)"
    by (simp_all add: sliceEq_def)
  then show "registerHost E m s =
        m\<lparr>Registry := Registry m @
           [Call_CacheLookup (ID s), Call_CacheDelete (ID s), Call_Register s]\<rparr>"
    by (simp add: registerHost_def Registry_CacheLookup_def Registry_Register_def
        Registry_CacheDelete_def)
qed

theorem registerHost_decision_witness:
  "CacheLookup sampleEnv (Registry sampleMesos) ''mc:mesos:10.0.0.2:5050'' = None
   \<and> Registry (registerHost sampleEnv sampleMesos (sampleHost\<lparr>ID := ''mc:mesos:10.0.0.2:5050''\<rparr>)) =
     [Call_CacheLookup ''mc:mesos:10.0.0.2:5050'',
      Call_Register (sampleHost\<lparr>ID := ''mc:mesos:10.0.0.2:5050''\<rparr>)]
   \<and> CacheLookup sampleEnv (Registry sampleMesos) (ID sampleHost) = Some sampleHost
   \<and> Tags sampleHost = [''master'', ''leader'']
   \<and> Registry (registerHost sampleEnv sampleMesos (sampleHost\<lparr>Tags := [''leader'', ''master'']\<rparr>)) =
     [Call_CacheLookup (ID sampleHost), Call_CacheMark (ID sampleHost)]
   \<and> Registry (registerHost sampleEnv sampleMesos (sampleHost\<lparr>Tags := [''leader'', ''agent'']\<rparr>)) =
     [Call_CacheLookup (ID sampleHost), Call_CacheDelete (ID sampleHost),
      Call_Register (sampleHost\<lparr>Tags := [''leader'', ''agent'']\<rparr>)]
   \<and> Registry (registerHost sampleEnv sampleMesos
         (sampleHost\<lparr>Tags := [''leader'', ''master'', ''master'']\<rparr>)) =
     [Call_CacheLookup (ID sampleHost), Call_CacheDelete (ID sampleHost),
      Call_Register (sampleHost\<lparr>Tags := [''leader'', ''master'', ''master'']\<rparr>)]"
proof -
  have l0: "CacheLookup sampleEnv (Registry sampleMesos) ''mc:mesos:10.0.0.2:5050'' = None"
    by (simp add: sampleEnv_def sampleHost_def)
  have l1: "CacheLookup sampleEnv (Registry sampleMesos) (ID sampleHost) = Some sampleHost"
    by (simp add: sampleEnv_def)
  have t: "Tags sampleHost = [''master'', ''leader'']"
    by (simp add: sampleHost_def)
  have r0: "registerHost sampleEnv sampleMesos (sampleHost\<lparr>ID := ''mc:mesos:10.0.0.2:5050''\<rparr>) =
      sampleMesos\<lparr>Registry := Registry sampleMesos @ [Call_CacheLookup ''mc:mesos:10.0.0.2:5050'',
        Call_Register (sampleHost\<lparr>ID := ''mc:mesos:10.0.0.2:5050''\<rparr>)]\<rparr>"
    using registerHost_decision [of sampleEnv sampleMesos
        "sampleHost\<lparr>ID := ''mc:mesos:10.0.0.2:5050''\<rparr>"] l0
    by simp
  have r1: "registerHost sampleEnv sampleMesos (sampleHost\<lparr>Tags := [''leader'', ''master'']\<rparr>) =
      sampleMesos\<lparr>Registry := Registry sampleMesos @
        [Call_CacheLookup (ID sampleHost), Call_CacheMark (ID sampleHost)]\<rparr>"
    using registerHost_decision [of sampleEnv sampleMesos
        "sampleHost\<lparr>Tags := [''leader'', ''master'']\<rparr>"] l1 t
    by (simp add: insert_commute)
  have r2: "registerHost sampleEnv sampleMesos (sampleHost\<lparr>Tags := [''leader'', ''agent'']\<rparr>) =
      sampleMesos\<lparr>Registry := Registry sampleMesos @
        [Call_CacheLookup (ID sampleHost), Call_CacheDelete (ID sampleHost),
         Call_Register (sampleHost\<lparr>Tags := [''leader'', ''agent'']\<rparr>)]\<rparr>"
    using registerHost_decision [of sampleEnv sampleMesos
        "sampleHost\<lparr>Tags := [''leader'', ''agent'']\<rparr>"] l1 t
    by (simp add: doubleton_eq_iff)
  have r3: "registerHost sampleEnv sampleMesos
        (sampleHost\<lparr>Tags := [''leader'', ''master'', ''master'']\<rparr>) =
      sampleMesos\<lparr>Registry := Registry sampleMesos @
        [Call_CacheLookup (ID sampleHost), Call_CacheDelete (ID sampleHost),
         Call_Register (sampleHost\<lparr>Tags := [''leader'', ''master'', ''master'']\<rparr>)]\<rparr>"
    using registerHost_decision [of sampleEnv sampleMesos
        "sampleHost\<lparr>Tags := [''leader'', ''master'', ''master'']\<rparr>"] l1 t
    by simp
  have e: "Registry sampleMesos = []"
    by (simp add: sampleMesos_def)
  show ?thesis
    unfolding r0 r1 r2 r3 using l0 l1 t e by simp
qed

section \<open>Node tags\<close>

lemma agentTags_roles_eq:
  "agentTags_roles tag ts rval = rval @ map (\<lambda>t. t @ ''.'' @ tag) ts"
  by (induction ts arbitrary: rval) simp_all

lemma agentTags_loop_eq:
  "agentTags_loop tags ts rval = rval @ concat (map (\<lambda>tag. map (\<lambda>t. t @ ''.'' @ tag) ts) tags)"
  by (induction tags arbitrary: rval) (simp_all add: agentTags_roles_eq)

text \<open>
  C9. For every list of role labels, agentTags returns the roles unchanged when the
  configured suffix list is empty. Otherwise it returns the tags \<open>role.suffix\<close> for every
  configured suffix and every role (suffix by suffix, the roles in their order), so its
  elements are exactly the cross product, and it has one element per pair.
\<close>

theorem agentTags_cross_product:
  "(ServiceTags m = [] \<longrightarrow> agentTags m ts = ts)
   \<and> (ServiceTags m \<noteq> [] \<longrightarrow>
        agentTags m ts = concat (map (\<lambda>tag. map (\<lambda>t. t @ ''.'' @ tag) ts) (ServiceTags m))
        \<and> set (agentTags m ts) = {t @ ''.'' @ tag | t tag. t \<in> set ts \<and> tag \<in> set (ServiceTags m)}
        \<and> length (agentTags m ts) = length ts * length (ServiceTags m))"
proof -
  have len: "length (concat (map (\<lambda>tag. map (f tag) ts) tags)) = length ts * length tags"
    for tags :: "string list" and f :: "string \<Rightarrow> string \<Rightarrow> string"
    by (induction tags) simp_all
  show ?thesis
    by (auto simp: agentTags_def agentTags_loop_eq len)
qed

theorem agentTags_cross_product_witness:
  "ServiceTags sampleMesos = [] \<and> agentTags sampleMesos [''agent'', ''follower''] = [''agent'', ''follower'']
   \<and> ServiceTags (sampleMesos\<lparr>ServiceTags := [''dc1'', ''prod'']\<rparr>) \<noteq> []
   \<and> agentTags (sampleMesos\<lparr>ServiceTags := [''dc1'', ''prod'']\<rparr>) [''agent'', ''follower'']
       = [''agent.dc1'', ''follower.dc1'', ''agent.prod'', ''follower.prod'']"
  using agentTags_cross_product [of sampleMesos "[''agent'', ''follower'']"]
    agentTags_cross_product [of "sampleMesos\<lparr>ServiceTags := [''dc1'', ''prod'']\<rparr>" "[''agent'', ''follower'']"]
  by (simp add: sampleMesos_def)

section \<open>Task tags\<close>

lemma taskTags_loop_no_match:
  "\<not> Contains n p \<Longrightarrow> taskTags_loop n p tags result = result"
  by (induction tags arbitrary: result) simp_all

lemma remdups_append_filter:
  "remdups (as @ bs) = filter (\<lambda>x. x \<notin> set bs) (remdups as) @ remdups bs"
  by (induction as) auto

lemma firsts_append:
  "rev (remdups (rev (xs @ ys))) =
     rev (remdups (rev xs)) @ rev (remdups (rev (filter (\<lambda>y. y \<notin> set xs) ys)))"
  by (simp add: remdups_append_filter rev_filter remdups_filter)

lemma taskTags_loop_match:
  "Contains n p \<Longrightarrow>
   taskTags_loop n p tags result = result @ rev (remdups (rev (filter (\<lambda>x. x \<notin> set result) tags)))"
proof (induction tags arbitrary: result)
  case Nil
  then show ?case by simp
next
  case (Cons tag tags)
  show ?case
  proof (cases "tag \<in> set result")
    case True
    then show ?thesis using Cons by (simp add: sliceContainsString_def)
  next
    case False
    have "taskTags_loop n p (tag # tags) result = taskTags_loop n p tags (result @ [tag])"
      using False Cons.prems by (simp add: sliceContainsString_def)
    also have "\<dots> = (result @ [tag]) @ rev (remdups (rev (filter (\<lambda>x. x \<notin> set (result @ [tag])) tags)))"
      using Cons.IH [OF Cons.prems] .
    also have "\<dots> = result @ rev (remdups (rev ([tag] @ filter (\<lambda>x. x \<notin> set result) tags)))"
      unfolding firsts_append by (simp add: conj_commute)
    finally show ?thesis using False by simp
  qed
qed

lemma taskTag_loop_eq:
  "taskTag_loop n tt result =
     result @ rev (remdups (rev (filter (\<lambda>x. x \<notin> set result)
       (concat (map snd (filter (\<lambda>r. Contains n (fst r)) tt))))))"
proof (induction tt arbitrary: result)
  case Nil
  then show ?case by simp
next
  case (Cons r tt)
  obtain p tags where r: "r = (p, tags)" by (cases r)
  show ?case
  proof (cases "Contains n p")
    case False
    then show ?thesis using Cons.IH by (simp add: r taskTags_loop_no_match)
  next
    case True
    let ?rest = "concat (map snd (filter (\<lambda>r. Contains n (fst r)) tt))"
    have "taskTag_loop n (r # tt) result =
            taskTag_loop n tt (result @ rev (remdups (rev (filter (\<lambda>x. x \<notin> set result) tags))))"
      by (simp add: r taskTags_loop_match [OF True])
    also have "\<dots> = result @ rev (remdups (rev (filter (\<lambda>x. x \<notin> set result) tags)))
          @ rev (remdups (rev (filter (\<lambda>x. x \<notin> set (filter (\<lambda>x. x \<notin> set result) tags))
                 (filter (\<lambda>x. x \<notin> set result) ?rest))))"
      unfolding Cons.IH by (simp add: conj_commute)
    also have "\<dots> = result @ rev (remdups (rev (filter (\<lambda>x. x \<notin> set result) tags
                 @ filter (\<lambda>x. x \<notin> set result) ?rest)))"
      unfolding firsts_append [of "filter (\<lambda>x. x \<notin> set result) tags"] by simp
    finally show ?thesis by (simp add: r True)
  qed
qed

lemma Contains_iff_sublist: "Contains s substr \<longleftrightarrow> sublist substr s"
  by (induction s) (auto simp: sublist_Cons_right)

lemma ToLower_sample: "ToLower ''Web-DB'' = ''web-db''"
  by code_simp

text \<open>
  C8 (amended). buildRegisterTaskTags matches each rule pattern against the lower-cased task
  name and appends each tag of a matching rule only if the tag is not yet present in the
  result, so the tags it appends are pairwise distinct and distinct from the starting tags.
  The rules are applied in the order in which the \<^verbatim>\<open>range\<close> loop visits the entries of the
  Go map (the list \<open>tt\<close>), the tags of one rule in their listed order, and the first-seen
  tag wins its position: the result is the starting tags followed by the first occurrences
  of the new tags of the matching rules, in visiting order.
\<close>

theorem buildRegisterTaskTags_result:
  "buildRegisterTaskTags taskName startingTags tt =
     startingTags @ rev (remdups (rev (filter (\<lambda>tag. tag \<notin> set startingTags)
       (concat (map snd (filter (\<lambda>rule. Contains (ToLower taskName) (fst rule)) tt))))))
   \<and> distinct (drop (length startingTags) (buildRegisterTaskTags taskName startingTags tt))
   \<and> set (drop (length startingTags) (buildRegisterTaskTags taskName startingTags tt))
        \<inter> set startingTags = {}
   \<and> (distinct startingTags \<longrightarrow> distinct (buildRegisterTaskTags taskName startingTags tt))"
  by (auto simp: buildRegisterTaskTags_def taskTag_loop_eq)

theorem buildRegisterTaskTags_result_witness:
  "distinct [''a'', ''w''] \<and>
   buildRegisterTaskTags ''Web-DB'' [''a'', ''w''] [(''web'', [''w'', ''x'']), (''nomatch'', [''n'']), (''db'', [''x'', ''d''])]
     = [''a'', ''w'', ''x'', ''d'']"
  using buildRegisterTaskTags_result [of "''Web-DB''" "[''a'', ''w'']"
      "[(''web'', [''w'', ''x'']), (''nomatch'', [''n'']), (''db'', [''x'', ''d''])]"]
  by (simp add: ToLower_sample)

text \<open>
  C8 as stated fails: the rule table is a Go map, which has no configured order. The same
  table, visited in its two possible orders, gives two different tag sequences.
\<close>

theorem buildRegisterTaskTags_order_counterexample:
  "set [(''web'', [''w'']), (''db'', [''d''])] = set [(''db'', [''d'']), (''web'', [''w''])]
   \<and> buildRegisterTaskTags ''Web-DB'' [] [(''web'', [''w'']), (''db'', [''d''])] = [''w'', ''d'']
   \<and> buildRegisterTaskTags ''Web-DB'' [] [(''db'', [''d'']), (''web'', [''w''])] = [''d'', ''w'']"
  by (simp add: buildRegisterTaskTags_def ToLower_sample sliceContainsString_def insert_commute)

section \<open>Host reconciliation\<close>

lemma registerHost_Agents: "Agents (registerHost E m s) = Agents m"
  by (simp add: registerHost_def Registry_CacheLookup_def Registry_Register_def
      Registry_CacheMark_def Registry_CacheDelete_def split: option.split)

lemma registerHost_Registry_only:
  "Registry m = Registry m' \<Longrightarrow> Registry (registerHost E m s) = Registry (registerHost E m' s)"
  by (simp add: registerHost_def Registry_CacheLookup_def Registry_Register_def
      Registry_CacheMark_def Registry_CacheDelete_def split: option.split)

lemma registerHost_config:
  "ServiceIdPrefix (registerHost E m s) = ServiceIdPrefix m"
  "ServiceName (registerHost E m s) = ServiceName m"
  "ServiceTags (registerHost E m s) = ServiceTags m"
  by (simp_all add: registerHost_def Registry_CacheLookup_def Registry_Register_def
      Registry_CacheMark_def Registry_CacheDelete_def split: option.split)

lemma foldl_registerHost_Registry_only:
  "Registry m = Registry m' \<Longrightarrow>
   Registry (foldl (registerHost E) m ss) = Registry (foldl (registerHost E) m' ss)"
proof (induction ss arbitrary: m m')
  case Nil
  then show ?case by simp
next
  case (Cons s ss)
  have "Registry (registerHost E m s) = Registry (registerHost E m' s)"
    using Cons.prems by (rule registerHost_Registry_only)
  then show ?case unfolding foldl_Cons by (rule Cons.IH)
qed

lemma slaveService_cong:
  "ServiceIdPrefix m = ServiceIdPrefix m' \<Longrightarrow> ServiceName m = ServiceName m' \<Longrightarrow>
   ServiceTags m = ServiceTags m' \<Longrightarrow> slaveService E m f = slaveService E m' f"
  unfolding slaveService_def agentTags_def by simp

lemma masterService_cong:
  "ServiceIdPrefix m = ServiceIdPrefix m' \<Longrightarrow> ServiceName m = ServiceName m' \<Longrightarrow>
   ServiceTags m = ServiceTags m' \<Longrightarrow> masterService m ma = masterService m' ma"
  unfolding masterService_def agentTags_def by simp

lemma RegisterHosts_slaves_config:
  "ServiceIdPrefix (RegisterHosts_slaves E fs m) = ServiceIdPrefix m
   \<and> ServiceName (RegisterHosts_slaves E fs m) = ServiceName m
   \<and> ServiceTags (RegisterHosts_slaves E fs m) = ServiceTags m"
proof (induction fs arbitrary: m)
  case Nil
  show ?case by simp
next
  case (Cons f fs)
  show ?case
    by (simp add: Let_def Cons.IH registerHost_config)
qed

lemma RegisterHosts_slaves_Registry:
  "Registry (RegisterHosts_slaves E fs m) =
     Registry (foldl (registerHost E) m (map (slaveService E m) fs))"
proof (induction fs arbitrary: m)
  case Nil
  show ?case by simp
next
  case (Cons f fs)
  define m1 where "m1 = m\<lparr>Agents := (Agents m)(Slave_ID f \<mapsto> toIP E (PID_Host (Slave_PID f)))\<rparr>"
  define m2 where "m2 = registerHost E m1 (slaveService E m1 f)"
  have s1: "slaveService E m1 = slaveService E m"
    by (rule ext, rule slaveService_cong) (simp_all add: m1_def)
  have s2: "slaveService E m2 = slaveService E m"
    by (rule ext, rule slaveService_cong) (simp_all add: m2_def registerHost_config m1_def)
  have r: "Registry m2 = Registry (registerHost E m (slaveService E m f))"
    unfolding m2_def s1 by (rule registerHost_Registry_only) (simp add: m1_def)
  have "RegisterHosts_slaves E (f # fs) m = RegisterHosts_slaves E fs m2"
    unfolding RegisterHosts_slaves.simps Let_def m2_def m1_def ..
  then have "Registry (RegisterHosts_slaves E (f # fs) m)
      = Registry (foldl (registerHost E) m2 (map (slaveService E m2) fs))"
    by (simp only: Cons.IH)
  also have "map (slaveService E m2) fs = map (slaveService E m) fs"
    by (simp only: s2)
  also have "Registry (foldl (registerHost E) m2 (map (slaveService E m) fs))
      = Registry (foldl (registerHost E) (registerHost E m (slaveService E m f))
          (map (slaveService E m) fs))"
    using r by (rule foldl_registerHost_Registry_only)
  finally show ?case by (simp only: list.map foldl_Cons)
qed

lemma RegisterHosts_masters_Registry:
  "Registry (RegisterHosts_masters E mas m) =
     Registry (foldl (registerHost E) m (map (masterService m) mas))"
proof (induction mas arbitrary: m)
  case Nil
  show ?case by simp
next
  case (Cons ma mas)
  define m2 where "m2 = registerHost E m (masterService m ma)"
  have s2: "masterService m2 = masterService m"
    by (rule ext, rule masterService_cong) (simp_all add: m2_def registerHost_config)
  have "Registry (RegisterHosts_masters E (ma # mas) m)
      = Registry (foldl (registerHost E) m2 (map (masterService m2) mas))"
    unfolding RegisterHosts_masters.simps m2_def by (simp only: Cons.IH)
  also have "map (masterService m2) mas = map (masterService m) mas"
    by (simp only: s2)
  finally show ?case by (simp only: list.map foldl_Cons m2_def)
qed

lemma RegisterHosts_Registry:
  "Registry (RegisterHosts E m s mas) =
     Registry (foldl (registerHost E) m
       (map (slaveService E m) (Slaves s) @ map (masterService m) mas))"
proof -
  define m0 where "m0 = m\<lparr>Agents := Map.empty\<rparr>"
  define ms where "ms = RegisterHosts_slaves E (Slaves s) m0"
  have c: "ServiceIdPrefix ms = ServiceIdPrefix m" "ServiceName ms = ServiceName m"
    "ServiceTags ms = ServiceTags m"
    using RegisterHosts_slaves_config [of E "Slaves s" m0] by (simp_all add: ms_def m0_def)
  have s0: "slaveService E m0 = slaveService E m"
    by (rule ext, rule slaveService_cong) (simp_all add: m0_def)
  have s1: "masterService ms = masterService m"
    by (rule ext, rule masterService_cong) (simp_all add: c)
  have "Registry ms = Registry (foldl (registerHost E) m0 (map (slaveService E m0) (Slaves s)))"
    unfolding ms_def by (rule RegisterHosts_slaves_Registry)
  also have "map (slaveService E m0) (Slaves s) = map (slaveService E m) (Slaves s)"
    by (simp only: s0)
  also have "Registry (foldl (registerHost E) m0 (map (slaveService E m) (Slaves s)))
      = Registry (foldl (registerHost E) m (map (slaveService E m) (Slaves s)))"
    by (rule foldl_registerHost_Registry_only) (simp add: m0_def)
  finally have r: "Registry ms = Registry (foldl (registerHost E) m (map (slaveService E m) (Slaves s)))" .
  have "Registry (RegisterHosts E m s mas)
      = Registry (foldl (registerHost E) ms (map (masterService ms) mas))"
    unfolding RegisterHosts_def ms_def m0_def by (rule RegisterHosts_masters_Registry)
  also have "map (masterService ms) mas = map (masterService m) mas"
    by (simp only: s1)
  also have "Registry (foldl (registerHost E) ms (map (masterService m) mas))
      = Registry (foldl (registerHost E) (foldl (registerHost E) m (map (slaveService E m) (Slaves s)))
          (map (masterService m) mas))"
    using r by (rule foldl_registerHost_Registry_only)
  finally show ?thesis by (simp only: foldl_append)
qed

lemma Itoa_5051: "Itoa 5051 = ''5051''"
  by (simp add: Itoa_def digits.simps digitChar_def)

lemma Itoa_5050: "Itoa 5050 = ''5050''"
  by (simp add: Itoa_def digits.simps digitChar_def)

lemma Itoa_8080: "Itoa 8080 = ''8080''"
  by (simp add: Itoa_def digits.simps digitChar_def)

text \<open>
  C7. RegisterHosts passes one desired entry per worker node of the snapshot, then one per
  control-plane node, through the cache-diff decision registerHost, in that order. A
  worker's entry has the tags agentTags of agent and follower, and an HTTP health check at
  \<open>http://host:port/slave(1)/health\<close> with interval 10s, where host and port are the
  resolved address and port of the worker. A control-plane node's entry has the tags
  agentTags of leader and master if the node is the current leader and of master
  otherwise, and an HTTP health check at \<open>http://ip:port/master/health\<close> with
  interval 10s. When no extra suffixes are configured, agentTags leaves the roles unchanged.
\<close>

theorem RegisterHosts_entries:
  "Registry (RegisterHosts E m s mas) =
     Registry (foldl (registerHost E) m
       (map (\<lambda>f. \<lparr>ID = ServiceIdPrefix m @ '':'' @ ServiceName m @ '':'' @ Slave_ID f @ '':''
                       @ Slave_Hostname f,
                  Name = ServiceName m,
                  Port = toPort E (PID_Port (Slave_PID f)),
                  Address = toIP E (PID_Host (Slave_PID f)),
                  Agent = toIP E (PID_Host (Slave_PID f)),
                  Tags = agentTags m [''agent'', ''follower''],
                  Check = Some \<lparr>HTTP = ''http://'' @ toIP E (PID_Host (Slave_PID f)) @ '':''
                                   @ Itoa (toPort E (PID_Port (Slave_PID f))) @ ''/slave(1)/health'',
                                 Interval = ''10s''\<rparr>\<rparr>) (Slaves s)
        @ map (\<lambda>ma. \<lparr>ID = ServiceIdPrefix m @ '':'' @ ServiceName m @ '':'' @ MesosHost_Ip ma @ '':''
                         @ MesosHost_PortString ma,
                    Name = ServiceName m,
                    Port = MesosHost_Port ma,
                    Address = MesosHost_Ip ma,
                    Agent = MesosHost_Ip ma,
                    Tags = (if MesosHost_IsLeader ma then agentTags m [''leader'', ''master'']
                            else agentTags m [''master'']),
                    Check = Some \<lparr>HTTP = ''http://'' @ MesosHost_Ip ma @ '':''
                                     @ Itoa (MesosHost_Port ma) @ ''/master/health'',
                                   Interval = ''10s''\<rparr>\<rparr>) mas))
   \<and> (ServiceTags m = [] \<longrightarrow>
        agentTags m [''agent'', ''follower''] = [''agent'', ''follower'']
        \<and> agentTags m [''leader'', ''master''] = [''leader'', ''master'']
        \<and> agentTags m [''master''] = [''master''])"
proof
  show "ServiceTags m = [] \<longrightarrow>
        agentTags m [''agent'', ''follower''] = [''agent'', ''follower'']
        \<and> agentTags m [''leader'', ''master''] = [''leader'', ''master'']
        \<and> agentTags m [''master''] = [''master'']"
    by (simp add: agentTags_def)
  have a: "slaveService E m = (\<lambda>f. \<lparr>ID = ServiceIdPrefix m @ '':'' @ ServiceName m @ '':'' @ Slave_ID f @ '':''
                       @ Slave_Hostname f,
                  Name = ServiceName m,
                  Port = toPort E (PID_Port (Slave_PID f)),
                  Address = toIP E (PID_Host (Slave_PID f)),
                  Agent = toIP E (PID_Host (Slave_PID f)),
                  Tags = agentTags m [''agent'', ''follower''],
                  Check = Some \<lparr>HTTP = ''http://'' @ toIP E (PID_Host (Slave_PID f)) @ '':''
                                   @ Itoa (toPort E (PID_Port (Slave_PID f))) @ ''/slave(1)/health'',
                                 Interval = ''10s''\<rparr>\<rparr>)"
    unfolding slaveService_def Let_def ..
  have b: "masterService m = (\<lambda>ma. \<lparr>ID = ServiceIdPrefix m @ '':'' @ ServiceName m @ '':'' @ MesosHost_Ip ma @ '':''
                         @ MesosHost_PortString ma,
                    Name = ServiceName m,
                    Port = MesosHost_Port ma,
                    Address = MesosHost_Ip ma,
                    Agent = MesosHost_Ip ma,
                    Tags = (if MesosHost_IsLeader ma then agentTags m [''leader'', ''master'']
                            else agentTags m [''master'']),
                    Check = Some \<lparr>HTTP = ''http://'' @ MesosHost_Ip ma @ '':''
                                     @ Itoa (MesosHost_Port ma) @ ''/master/health'',
                                   Interval = ''10s''\<rparr>\<rparr>)"
    unfolding masterService_def Let_def ..
  show "Registry (RegisterHosts E m s mas) =
     Registry (foldl (registerHost E) m
       (map (\<lambda>f. \<lparr>ID = ServiceIdPrefix m @ '':'' @ ServiceName m @ '':'' @ Slave_ID f @ '':''
                       @ Slave_Hostname f,
                  Name = ServiceName m,
                  Port = toPort E (PID_Port (Slave_PID f)),
                  Address = toIP E (PID_Host (Slave_PID f)),
                  Agent = toIP E (PID_Host (Slave_PID f)),
                  Tags = agentTags m [''agent'', ''follower''],
                  Check = Some \<lparr>HTTP = ''http://'' @ toIP E (PID_Host (Slave_PID f)) @ '':''
                                   @ Itoa (toPort E (PID_Port (Slave_PID f))) @ ''/slave(1)/health'',
                                 Interval = ''10s''\<rparr>\<rparr>) (Slaves s)
        @ map (\<lambda>ma. \<lparr>ID = ServiceIdPrefix m @ '':'' @ ServiceName m @ '':'' @ MesosHost_Ip ma @ '':''
                         @ MesosHost_PortString ma,
                    Name = ServiceName m,
                    Port = MesosHost_Port ma,
                    Address = MesosHost_Ip ma,
                    Agent = MesosHost_Ip ma,
                    Tags = (if MesosHost_IsLeader ma then agentTags m [''leader'', ''master'']
                            else agentTags m [''master'']),
                    Check = Some \<lparr>HTTP = ''http://'' @ MesosHost_Ip ma @ '':''
                                     @ Itoa (MesosHost_Port ma) @ ''/master/health'',
                                   Interval = ''10s''\<rparr>\<rparr>) mas))"
    unfolding RegisterHosts_Registry a b ..
qed

theorem RegisterHosts_entries_witness:
  "ServiceTags sampleMesos = []
   \<and> Registry (RegisterHosts sampleEnv sampleMesos sampleState sampleMasters) =
     [Call_CacheLookup ''mc:mesos:agent-1:worker1'',
      Call_Register \<lparr>ID = ''mc:mesos:agent-1:worker1'', Name = ''mesos'', Port = 5051,
        Address = ''10.0.0.5'', Agent = ''10.0.0.5'', Tags = [''agent'', ''follower''],
        Check = Some \<lparr>HTTP = ''http://10.0.0.5:5051/slave(1)/health'', Interval = ''10s''\<rparr>\<rparr>,
      Call_CacheLookup ''mc:mesos:10.0.0.1:5050'',
      Call_CacheMark ''mc:mesos:10.0.0.1:5050'',
      Call_CacheLookup ''mc:mesos:10.0.0.2:5050'',
      Call_Register \<lparr>ID = ''mc:mesos:10.0.0.2:5050'', Name = ''mesos'', Port = 5050,
        Address = ''10.0.0.2'', Agent = ''10.0.0.2'', Tags = [''master''],
        Check = Some \<lparr>HTTP = ''http://10.0.0.2:5050/master/health'', Interval = ''10s''\<rparr>\<rparr>]"
proof -
  have t: "ServiceTags sampleMesos = []"
    by (simp add: sampleMesos_def)
  have a: "agentTags sampleMesos [''agent'', ''follower''] = [''agent'', ''follower'']"
    "agentTags sampleMesos [''leader'', ''master''] = [''leader'', ''master'']"
    "agentTags sampleMesos [''master''] = [''master'']"
    using RegisterHosts_entries [of sampleEnv sampleMesos sampleState sampleMasters] t by simp_all
  have "Registry (RegisterHosts sampleEnv sampleMesos sampleState sampleMasters) =
     [Call_CacheLookup ''mc:mesos:agent-1:worker1'',
      Call_Register \<lparr>ID = ''mc:mesos:agent-1:worker1'', Name = ''mesos'', Port = 5051,
        Address = ''10.0.0.5'', Agent = ''10.0.0.5'', Tags = [''agent'', ''follower''],
        Check = Some \<lparr>HTTP = ''http://10.0.0.5:5051/slave(1)/health'', Interval = ''10s''\<rparr>\<rparr>,
      Call_CacheLookup ''mc:mesos:10.0.0.1:5050'',
      Call_CacheMark ''mc:mesos:10.0.0.1:5050'',
      Call_CacheLookup ''mc:mesos:10.0.0.2:5050'',
      Call_Register \<lparr>ID = ''mc:mesos:10.0.0.2:5050'', Name = ''mesos'', Port = 5050,
        Address = ''10.0.0.2'', Agent = ''10.0.0.2'', Tags = [''master''],
        Check = Some \<lparr>HTTP = ''http://10.0.0.2:5050/master/health'', Interval = ''10s''\<rparr>\<rparr>]"
    unfolding RegisterHosts_entries [of sampleEnv sampleMesos sampleState sampleMasters, THEN conjunct1] a
    by (simp add: sampleEnv_def sampleMesos_def sampleState_def sampleMasters_def sampleHost_def
      registerHost_def Registry_CacheLookup_def Registry_Register_def Registry_CacheMark_def
      Registry_CacheDelete_def sliceEq_def Itoa_5051 Itoa_5050 insert_commute)
  with t show ?thesis by simp
qed

section \<open>The agent-address map\<close>

lemma RegisterHosts_slaves_Agents:
  "Agents (RegisterHosts_slaves E fs m) =
     foldl (\<lambda>a f. a(Slave_ID f \<mapsto> toIP E (PID_Host (Slave_PID f)))) (Agents m) fs"
proof (induction fs arbitrary: m)
  case Nil
  show ?case by simp
next
  case (Cons f fs)
  show ?case
    unfolding RegisterHosts_slaves.simps Let_def Cons.IH registerHost_Agents foldl_Cons
    by simp
qed

lemma RegisterHosts_masters_Agents:
  "Agents (RegisterHosts_masters E mas m) = Agents m"
proof (induction mas arbitrary: m)
  case Nil
  show ?case by simp
next
  case (Cons ma mas)
  show ?case
    unfolding RegisterHosts_masters.simps Cons.IH by (rule registerHost_Agents)
qed

lemma foldl_upd_lookup:
  "foldl (\<lambda>a f. a(key f \<mapsto> val f)) a0 fs k =
     (case find (\<lambda>f. key f = k) (rev fs) of None \<Rightarrow> a0 k | Some f \<Rightarrow> Some (val f))"
  by (induction fs rule: rev_induct) simp_all

lemma find_SomeD: "find P xs = Some x \<Longrightarrow> x \<in> set xs \<and> P x"
  by (induction xs) (auto split: if_splits)

text \<open>
  C10. RegisterHosts reinitializes the agent-address map at the start of every call.
  Afterwards the map has an entry exactly for the identifiers of the workers (slaves) of
  the given snapshot, whatever it held before and whatever the control-plane nodes are; an
  identifier is mapped to the IP resolved from the reported host of the worker that has it
  (of the last such worker in the snapshot, should two workers share an identifier). So
  when the identifiers are distinct, every worker's identifier is mapped to the IP resolved
  from that worker's host.
\<close>

theorem RegisterHosts_Agents:
  "Agents (RegisterHosts E m s mas) k =
     (case find (\<lambda>f. Slave_ID f = k) (rev (Slaves s)) of
        None \<Rightarrow> None
      | Some f \<Rightarrow> Some (toIP E (PID_Host (Slave_PID f))))
   \<and> dom (Agents (RegisterHosts E m s mas)) = Slave_ID ` set (Slaves s)
   \<and> (distinct (map Slave_ID (Slaves s)) \<longrightarrow>
        (\<forall>f \<in> set (Slaves s).
           Agents (RegisterHosts E m s mas) (Slave_ID f) = Some (toIP E (PID_Host (Slave_PID f)))))"
proof -
  have A: "Agents (RegisterHosts E m s mas) k =
     (case find (\<lambda>f. Slave_ID f = k) (rev (Slaves s)) of
        None \<Rightarrow> None
      | Some f \<Rightarrow> Some (toIP E (PID_Host (Slave_PID f))))" for k
    by (simp add: RegisterHosts_def RegisterHosts_masters_Agents RegisterHosts_slaves_Agents
        foldl_upd_lookup)
  have B: "dom (Agents (RegisterHosts E m s mas)) = Slave_ID ` set (Slaves s)"
  proof -
    have "(Agents (RegisterHosts E m s mas) k \<noteq> None) = (k \<in> Slave_ID ` set (Slaves s))" for k
    proof (cases "find (\<lambda>f. Slave_ID f = k) (rev (Slaves s))")
      case None
      then have "k \<notin> Slave_ID ` set (Slaves s)" by (auto simp: find_None_iff)
      then show ?thesis unfolding A by (simp add: None)
    next
      case (Some g)
      from find_SomeD [OF Some] have "g \<in> set (Slaves s)" and "Slave_ID g = k" by simp_all
      then have "k \<in> Slave_ID ` set (Slaves s)" by blast
      then show ?thesis unfolding A by (simp add: Some)
    qed
    then show ?thesis by (auto simp: dom_def)
  qed
  have C: "Agents (RegisterHosts E m s mas) (Slave_ID f) = Some (toIP E (PID_Host (Slave_PID f)))"
    if d: "distinct (map Slave_ID (Slaves s))" and f: "f \<in> set (Slaves s)" for f
  proof -
    obtain g where g: "find (\<lambda>x. Slave_ID x = Slave_ID f) (rev (Slaves s)) = Some g"
      using f by (cases "find (\<lambda>x. Slave_ID x = Slave_ID f) (rev (Slaves s))")
        (auto simp: find_None_iff)
    then have "g \<in> set (Slaves s)" and "Slave_ID g = Slave_ID f"
      by (auto dest: find_SomeD)
    moreover have "inj_on Slave_ID (set (Slaves s))" using d by (simp add: distinct_map)
    ultimately have "g = f" using f by (simp add: inj_on_def)
    with g show ?thesis unfolding A by simp
  qed
  show ?thesis
  proof (intro conjI impI ballI)
    show "Agents (RegisterHosts E m s mas) k =
     (case find (\<lambda>f. Slave_ID f = k) (rev (Slaves s)) of
        None \<Rightarrow> None
      | Some f \<Rightarrow> Some (toIP E (PID_Host (Slave_PID f))))" by (rule A)
    show "dom (Agents (RegisterHosts E m s mas)) = Slave_ID ` set (Slaves s)" by (rule B)
    show "Agents (RegisterHosts E m s mas) (Slave_ID f) = Some (toIP E (PID_Host (Slave_PID f)))"
      if "distinct (map Slave_ID (Slaves s))" and "f \<in> set (Slaves s)" for f
      using that by (rule C)
  qed
qed


theorem RegisterHosts_Agents_witness:
  "distinct (map Slave_ID (Slaves sampleState))
   \<and> Agents (RegisterHosts sampleEnv (sampleMesos\<lparr>Agents := [''old-agent'' \<mapsto> ''10.9.9.9'']\<rparr>)
         sampleState sampleMasters) ''agent-1'' = Some ''10.0.0.5''
   \<and> Agents (RegisterHosts sampleEnv (sampleMesos\<lparr>Agents := [''old-agent'' \<mapsto> ''10.9.9.9'']\<rparr>)
         sampleState sampleMasters) ''old-agent'' = None
   \<and> dom (Agents (RegisterHosts sampleEnv (sampleMesos\<lparr>Agents := [''old-agent'' \<mapsto> ''10.9.9.9'']\<rparr>)
         sampleState sampleMasters)) = {''agent-1''}"
proof -
  have d: "distinct (map Slave_ID (Slaves sampleState))"
    by (simp add: sampleState_def)
  have s: "Slaves sampleState = [\<lparr>Slave_ID = ''agent-1'', Slave_Hostname = ''worker1'',
     Slave_PID = \<lparr>PID_Host = ''10.0.0.5'', PID_Port = ''5051''\<rparr>\<rparr>]"
    by (simp add: sampleState_def)
  have i: "toIP sampleEnv ''10.0.0.5'' = ''10.0.0.5''"
    by (simp add: sampleEnv_def)
  note w = RegisterHosts_Agents [of sampleEnv
      "sampleMesos\<lparr>Agents := [''old-agent'' \<mapsto> ''10.9.9.9'']\<rparr>" sampleState sampleMasters]
  show ?thesis
    using d w [of "''agent-1''"] w [of "''old-agent''"] by (simp add: s i)
qed

section \<open>Task reconciliation\<close>

lemma labelValue_None_iff: "labelValue ls name = None \<longleftrightarrow> (\<forall>l \<in> set ls. Key l \<noteq> name)"
  by (induction ls) simp_all

lemma Registry_Register_config:
  "ServiceIdPrefix (Registry_Register m s) = ServiceIdPrefix m"
  "Separator (Registry_Register m s) = Separator m"
  by (simp_all add: Registry_Register_def)

lemma namedPortService_cong:
  "ServiceIdPrefix m = ServiceIdPrefix m' \<Longrightarrow> Separator m = Separator m' \<Longrightarrow>
   namedPortService E m t agent tname address tags dp
     = namedPortService E m' t agent tname address tags dp"
  unfolding namedPortService_def by simp

text \<open>The calls that one iteration of the loop over the discovery ports makes.\<close>

lemma registerTask_ports_calls:
  "registerTask_ports E t agent tname address tags key ports m =
     m\<lparr>Registry := Registry m @ concat (map (\<lambda>(k, dp).
        (if k = 0 then [Call_Register (firstPortService E t agent tname address tags dp)] else [])
        @ (if DiscoveryPort_Name dp \<noteq> []
           then [Call_Register (namedPortService E m t agent tname address tags dp)] else []))
       (enumerate key ports))\<rparr>"
proof (induction ports arbitrary: key m)
  case Nil
  show ?case by simp
next
  case (Cons dp rest)
  define m1 where "m1 = (if key = 0 then
      Registry_Register m (firstPortService E t agent tname address tags dp) else m)"
  define m2 where "m2 = (if DiscoveryPort_Name dp \<noteq> [] then
      Registry_Register m1 (namedPortService E m1 t agent tname address tags dp) else m1)"
  have c1: "ServiceIdPrefix m1 = ServiceIdPrefix m" "Separator m1 = Separator m"
    by (simp_all add: m1_def Registry_Register_config)
  have c2: "ServiceIdPrefix m2 = ServiceIdPrefix m" "Separator m2 = Separator m"
    by (simp_all add: m2_def Registry_Register_config c1)
  have n1: "namedPortService E m1 t agent tname address tags dp
      = namedPortService E m t agent tname address tags dp"
    by (rule namedPortService_cong) (simp_all add: c1)
  have n2: "namedPortService E m2 t agent tname address tags = namedPortService E m t agent tname address tags"
    by (rule ext, rule namedPortService_cong) (simp_all add: c2)
  have r2: "m2 = m\<lparr>Registry := Registry m @
        ((if key = 0 then [Call_Register (firstPortService E t agent tname address tags dp)] else [])
        @ (if DiscoveryPort_Name dp \<noteq> []
           then [Call_Register (namedPortService E m t agent tname address tags dp)] else []))\<rparr>"
    unfolding m2_def n1 by (simp add: m1_def Registry_Register_def)
  have "registerTask_ports E t agent tname address tags key (dp # rest) m
      = registerTask_ports E t agent tname address tags (Suc key) rest m2"
    unfolding registerTask_ports.simps Let_def m2_def m1_def ..
  also have "\<dots> = m2\<lparr>Registry := Registry m2 @ concat (map (\<lambda>(k, dp).
        (if k = 0 then [Call_Register (firstPortService E t agent tname address tags dp)] else [])
        @ (if DiscoveryPort_Name dp \<noteq> []
           then [Call_Register (namedPortService E m t agent tname address tags dp)] else []))
       (enumerate (Suc key) rest))\<rparr>"
    unfolding Cons.IH n2 ..
  finally show ?case
    by (simp add: r2)
qed

lemma registerTask_allowed:
  assumes "\<forall>l \<in> set (Task_Labels t). Key l \<noteq> ''consul''"
    and "tname = (case Task_Label t ''overrideTaskName'' of
                    Some v \<Rightarrow> cleanName E v (Separator m)
                  | None \<Rightarrow> cleanName E (Task_ID t) (Separator m))"
    and "Allowed E tname"
    and "address = IP E t (IpOrder m)"
    and "tags = buildRegisterTaskTags tname
                  (case Task_Label t ''tags'' of Some l \<Rightarrow> Split l CHR '','' | None \<Rightarrow> [])
                  (taskTag m)"
  shows "registerTask E m t agent =
     (if DiscoveryInfo_Name (Task_DiscoveryInfo t) \<noteq> [] then
        (None, registerTask_ports E t agent tname address tags 0
                 (DiscoveryPorts (DiscoveryInfo_Ports (Task_DiscoveryInfo t))) m)
      else (None, Registry_Register m (noPortService E m t agent tname address tags)))"
proof -
  have c: "Task_Label t ''consul'' = None"
    using assms(1) by (simp add: Task_Label_def labelValue_None_iff)
  show ?thesis
    unfolding registerTask_def Let_def assms(2) [symmetric] assms(4) [symmetric]
      assms(5) [symmetric]
    using c assms(3) by simp
qed

text \<open>
  C2. For every workload instance carrying a label with key \<open>consul\<close>, registerTask
  returns the migration-marker error (\<open>Application with consul label\<close>) and makes no
  registry calls: the receiver, with its call history, is unchanged. For every instance
  without that label whose cleaned (possibly overridden) task name fails the allow-list
  check, registerTask returns the not-privileged error and makes no registry calls.
\<close>

theorem registerTask_errors:
  "((\<exists>l \<in> set (Task_Labels t). Key l = ''consul'') \<longrightarrow>
      registerTask E m t agent = (Some (errorString ''Application with consul label''), m))
   \<and> ((\<forall>l \<in> set (Task_Labels t). Key l \<noteq> ''consul'')
        \<and> \<not> Allowed E (case Task_Label t ''overrideTaskName'' of
                          Some v \<Rightarrow> cleanName E v (Separator m)
                        | None \<Rightarrow> cleanName E (Task_ID t) (Separator m)) \<longrightarrow>
      registerTask E m t agent = (Some (errorString ''Task not allowed to be registered''), m))"
proof (intro conjI impI)
  assume "\<exists>l \<in> set (Task_Labels t). Key l = ''consul''"
  then have "Task_Label t ''consul'' \<noteq> None"
    by (simp add: Task_Label_def labelValue_None_iff)
  then show "registerTask E m t agent = (Some (errorString ''Application with consul label''), m)"
    unfolding registerTask_def by simp
next
  assume a: "(\<forall>l \<in> set (Task_Labels t). Key l \<noteq> ''consul'')
        \<and> \<not> Allowed E (case Task_Label t ''overrideTaskName'' of
                          Some v \<Rightarrow> cleanName E v (Separator m)
                        | None \<Rightarrow> cleanName E (Task_ID t) (Separator m))"
  then have c: "Task_Label t ''consul'' = None"
    by (simp add: Task_Label_def labelValue_None_iff)
  show "registerTask E m t agent = (Some (errorString ''Task not allowed to be registered''), m)"
    unfolding registerTask_def Let_def using c a by simp
qed

theorem registerTask_errors_witness:
  "registerTask sampleEnv sampleMesos (sampleTask\<lparr>Task_Labels := [\<lparr>Key = ''consul'', Value = []\<rparr>]\<rparr>)
       ''agent1'' = (Some (errorString ''Application with consul label''), sampleMesos)
   \<and> \<not> Allowed sampleEnv (cleanName sampleEnv ''secret'' (Separator sampleMesos))
   \<and> registerTask sampleEnv sampleMesos (sampleTask\<lparr>Task_ID := ''secret''\<rparr>) ''agent1''
       = (Some (errorString ''Task not allowed to be registered''), sampleMesos)
   \<and> registerTask sampleEnv sampleMesos
         (sampleTask\<lparr>Task_Labels := [\<lparr>Key = ''overrideTaskName'', Value = ''secret''\<rparr>]\<rparr>) ''agent1''
       = (Some (errorString ''Task not allowed to be registered''), sampleMesos)"
proof -
  have n: "\<not> Allowed sampleEnv (cleanName sampleEnv ''secret'' (Separator sampleMesos))"
    by (simp add: sampleEnv_def)
  have 1: "registerTask sampleEnv sampleMesos
      (sampleTask\<lparr>Task_Labels := [\<lparr>Key = ''consul'', Value = []\<rparr>]\<rparr>) ''agent1''
      = (Some (errorString ''Application with consul label''), sampleMesos)"
    using registerTask_errors [of "sampleTask\<lparr>Task_Labels := [\<lparr>Key = ''consul'', Value = []\<rparr>]\<rparr>"
        sampleEnv sampleMesos "''agent1''"]
    by simp
  have 2: "registerTask sampleEnv sampleMesos (sampleTask\<lparr>Task_ID := ''secret''\<rparr>) ''agent1''
       = (Some (errorString ''Task not allowed to be registered''), sampleMesos)"
    using registerTask_errors [of "sampleTask\<lparr>Task_ID := ''secret''\<rparr>"
        sampleEnv sampleMesos "''agent1''"] n
    by (simp add: sampleTask_def Task_Label_def)
  have 3: "registerTask sampleEnv sampleMesos
         (sampleTask\<lparr>Task_Labels := [\<lparr>Key = ''overrideTaskName'', Value = ''secret''\<rparr>]\<rparr>) ''agent1''
       = (Some (errorString ''Task not allowed to be registered''), sampleMesos)"
    using registerTask_errors [of
        "sampleTask\<lparr>Task_Labels := [\<lparr>Key = ''overrideTaskName'', Value = ''secret''\<rparr>]\<rparr>"
        sampleEnv sampleMesos "''agent1''"] n
    by (simp add: Task_Label_def)
  show ?thesis
    using n 1 2 3 by simp
qed

text \<open>
  C5 (amended). For every allowed, unmarked workload instance whose discovery descriptor has
  an empty name (whether or not it lists discovery ports), registerTask makes exactly one
  registry call, a Register call, whose service uses the base cleaned name, the resolved
  address, no explicit port (the zero value), the base tags, and a health check built with
  only the host (no port).
\<close>

theorem registerTask_no_discovery_name:
  assumes "\<forall>l \<in> set (Task_Labels t). Key l \<noteq> ''consul''"
    and "tname = (case Task_Label t ''overrideTaskName'' of
                    Some v \<Rightarrow> cleanName E v (Separator m)
                  | None \<Rightarrow> cleanName E (Task_ID t) (Separator m))"
    and "Allowed E tname"
    and "address = IP E t (IpOrder m)"
    and "tags = buildRegisterTaskTags tname
                  (case Task_Label t ''tags'' of Some l \<Rightarrow> Split l CHR '','' | None \<Rightarrow> [])
                  (taskTag m)"
    and "DiscoveryInfo_Name (Task_DiscoveryInfo t) = []"
  shows "registerTask E m t agent =
     (None, m\<lparr>Registry := Registry m @
        [Call_Register
           \<lparr>ID = ServiceIdPrefix m @ '':'' @ agent @ ''-'' @ tname @ '':'' @ address,
            Name = tname,
            Port = 0,
            Address = address,
            Agent = toIP E agent,
            Tags = tags,
            Check = GetCheck E t \<lparr>CheckVar_Host = toIP E address, CheckVar_Port = []\<rparr>\<rparr>]\<rparr>)"
  unfolding registerTask_allowed [OF assms(1-5)] using assms(6)
  by (simp add: Registry_Register_def noPortService_def)

theorem registerTask_no_discovery_name_witness:
  "registerTask sampleEnv sampleMesos
     (sampleTask\<lparr>Task_Labels := [\<lparr>Key = ''tags'', Value = ''x,y''\<rparr>],
        Task_DiscoveryInfo := \<lparr>DiscoveryInfo_Name = [],
          DiscoveryInfo_Ports = \<lparr>DiscoveryPorts = [samplePort]\<rparr>\<rparr>\<rparr>) ''agent1'' =
     (None, sampleMesos\<lparr>Registry :=
        [Call_Register \<lparr>ID = ''mc:agent1-web:192.168.1.10'', Name = ''web'', Port = 0,
           Address = ''192.168.1.10'', Agent = ''agent1'', Tags = [''x'', ''y''],
           Check = None\<rparr>]\<rparr>)"
proof -
  have "registerTask sampleEnv sampleMesos
     (sampleTask\<lparr>Task_Labels := [\<lparr>Key = ''tags'', Value = ''x,y''\<rparr>],
        Task_DiscoveryInfo := \<lparr>DiscoveryInfo_Name = [],
          DiscoveryInfo_Ports = \<lparr>DiscoveryPorts = [samplePort]\<rparr>\<rparr>\<rparr>) ''agent1'' =
     (None, sampleMesos\<lparr>Registry := Registry sampleMesos @
        [Call_Register \<lparr>ID = ServiceIdPrefix sampleMesos @ '':'' @ ''agent1'' @ ''-'' @ ''web'' @ '':''
             @ ''192.168.1.10'',
           Name = ''web'', Port = 0,
           Address = ''192.168.1.10'', Agent = toIP sampleEnv ''agent1'', Tags = [''x'', ''y''],
           Check = GetCheck sampleEnv (sampleTask\<lparr>Task_Labels := [\<lparr>Key = ''tags'', Value = ''x,y''\<rparr>],
        Task_DiscoveryInfo := \<lparr>DiscoveryInfo_Name = [],
          DiscoveryInfo_Ports = \<lparr>DiscoveryPorts = [samplePort]\<rparr>\<rparr>\<rparr>)
             \<lparr>CheckVar_Host = toIP sampleEnv ''192.168.1.10'', CheckVar_Port = []\<rparr>\<rparr>]\<rparr>)"
    by (rule registerTask_no_discovery_name)
      (simp_all add: sampleEnv_def sampleMesos_def sampleTask_def Task_Label_def
        buildRegisterTaskTags_def)
  then show ?thesis
    by (simp add: sampleEnv_def sampleMesos_def)
qed

text \<open>
  C5 as stated fails: registerTask branches on the name of the discovery descriptor, not on
  the discovery ports. An allowed, unmarked instance that declares no discovery ports but
  has a discovery name makes no Register call at all.
\<close>

theorem registerTask_no_ports_counterexample:
  "DiscoveryPorts (DiscoveryInfo_Ports (Task_DiscoveryInfo
       (sampleTask\<lparr>Task_DiscoveryInfo := \<lparr>DiscoveryInfo_Name = ''web'',
          DiscoveryInfo_Ports = \<lparr>DiscoveryPorts = []\<rparr>\<rparr>\<rparr>))) = []
   \<and> Task_Labels (sampleTask\<lparr>Task_DiscoveryInfo := \<lparr>DiscoveryInfo_Name = ''web'',
          DiscoveryInfo_Ports = \<lparr>DiscoveryPorts = []\<rparr>\<rparr>\<rparr>) = []
   \<and> Allowed sampleEnv (cleanName sampleEnv ''web'' (Separator sampleMesos))
   \<and> Registry sampleMesos = []
   \<and> registerTask sampleEnv sampleMesos
        (sampleTask\<lparr>Task_DiscoveryInfo := \<lparr>DiscoveryInfo_Name = ''web'',
          DiscoveryInfo_Ports = \<lparr>DiscoveryPorts = []\<rparr>\<rparr>\<rparr>) ''agent1''
       = (None, sampleMesos)"
  by (simp add: registerTask_def sampleTask_def sampleEnv_def sampleMesos_def Task_Label_def
      buildRegisterTaskTags_def)

lemma ToLower_web: "ToLower ''web'' = ''web''"
  by code_simp

text \<open>
  C6 (amended). For an allowed, unmarked instance whose discovery descriptor has a non-empty
  name, registerTask goes through the discovery ports in their order. For every port that
  carries a non-empty name it registers one additional entry whose name is the base name
  suffixed with the port's name (cleaned), whose tags are the base tags followed by the
  port's name followed by the port's own tags, and whose identifier includes the port
  number; a port without a name produces no such entry. The only other call is the
  registration of the primary entry for the first port.
\<close>

theorem registerTask_named_ports:
  assumes "\<forall>l \<in> set (Task_Labels t). Key l \<noteq> ''consul''"
    and "tname = (case Task_Label t ''overrideTaskName'' of
                    Some v \<Rightarrow> cleanName E v (Separator m)
                  | None \<Rightarrow> cleanName E (Task_ID t) (Separator m))"
    and "Allowed E tname"
    and "address = IP E t (IpOrder m)"
    and "tags = buildRegisterTaskTags tname
                  (case Task_Label t ''tags'' of Some l \<Rightarrow> Split l CHR '','' | None \<Rightarrow> [])
                  (taskTag m)"
    and "DiscoveryInfo_Name (Task_DiscoveryInfo t) \<noteq> []"
  shows "registerTask E m t agent =
     (None, m\<lparr>Registry := Registry m @ concat (map (\<lambda>(key, discoveryPort).
        (if key = 0
         then [Call_Register (firstPortService E t agent tname address tags discoveryPort)]
         else [])
        @ (if DiscoveryPort_Name discoveryPort \<noteq> []
           then [Call_Register
             \<lparr>ID = ServiceIdPrefix m @ '':'' @ agent @ '':'' @ tname @ '':'' @ address @ '':''
                   @ Itoa (DiscoveryPort_Number discoveryPort),
              Name = cleanName E (tname @ ''-'' @ DiscoveryPort_Name discoveryPort) (Separator m),
              Port = toPort E (Itoa (DiscoveryPort_Number discoveryPort)),
              Address = address,
              Agent = toIP E agent,
              Tags = tags @ [DiscoveryPort_Name discoveryPort]
                     @ (if DiscoveryPort_Label discoveryPort ''tags'' \<noteq> []
                        then Split (DiscoveryPort_Label discoveryPort ''tags'') CHR '',''
                        else []),
              Check = GetCheck E t \<lparr>CheckVar_Host = toIP E address,
                        CheckVar_Port = Itoa (DiscoveryPort_Number discoveryPort)\<rparr>\<rparr>]
           else []))
       (enumerate 0 (DiscoveryPorts (DiscoveryInfo_Ports (Task_DiscoveryInfo t)))))\<rparr>)"
proof -
  have n: "namedPortService E m t agent tname address tags = (\<lambda>discoveryPort.
             \<lparr>ID = ServiceIdPrefix m @ '':'' @ agent @ '':'' @ tname @ '':'' @ address @ '':''
                   @ Itoa (DiscoveryPort_Number discoveryPort),
              Name = cleanName E (tname @ ''-'' @ DiscoveryPort_Name discoveryPort) (Separator m),
              Port = toPort E (Itoa (DiscoveryPort_Number discoveryPort)),
              Address = address,
              Agent = toIP E agent,
              Tags = tags @ [DiscoveryPort_Name discoveryPort]
                     @ (if DiscoveryPort_Label discoveryPort ''tags'' \<noteq> []
                        then Split (DiscoveryPort_Label discoveryPort ''tags'') CHR '',''
                        else []),
              Check = GetCheck E t \<lparr>CheckVar_Host = toIP E address,
                        CheckVar_Port = Itoa (DiscoveryPort_Number discoveryPort)\<rparr>\<rparr>)"
    by (rule ext) (simp add: namedPortService_def Let_def)
  show ?thesis
    unfolding registerTask_allowed [OF assms(1-5)] registerTask_ports_calls n
    using assms(6) by simp
qed

theorem registerTask_named_ports_witness:
  "registerTask sampleEnv (sampleMesos\<lparr>taskTag := [(''web'', [''frontend''])]\<rparr>) sampleNamedTask ''agent1'' =
     (None, sampleMesos\<lparr>taskTag := [(''web'', [''frontend''])], Registry :=
        [Call_Register \<lparr>ID = ''mesos-consul:agent1:web:8080'', Name = ''web'', Port = 8080,
           Address = ''192.168.1.10'', Agent = ''agent1'', Tags = [''frontend''], Check = None\<rparr>,
         Call_Register \<lparr>ID = ''mc:agent1:web:192.168.1.10:8080'', Name = ''web-http'',
           Port = 8080, Address = ''192.168.1.10'', Agent = ''agent1'',
           Tags = [''frontend'', ''http'', ''a'', ''b''], Check = None\<rparr>]\<rparr>)"
proof -
  have "registerTask sampleEnv (sampleMesos\<lparr>taskTag := [(''web'', [''frontend''])]\<rparr>)
      sampleNamedTask ''agent1'' =
     (None, sampleMesos\<lparr>taskTag := [(''web'', [''frontend''])]\<rparr>
       \<lparr>Registry := Registry (sampleMesos\<lparr>taskTag := [(''web'', [''frontend''])]\<rparr>)
          @ concat (map (\<lambda>(key, discoveryPort).
        (if key = 0
         then [Call_Register (firstPortService sampleEnv sampleNamedTask ''agent1'' ''web''
                 ''192.168.1.10'' [''frontend''] discoveryPort)]
         else [])
        @ (if DiscoveryPort_Name discoveryPort \<noteq> []
           then [Call_Register
             \<lparr>ID = ServiceIdPrefix (sampleMesos\<lparr>taskTag := [(''web'', [''frontend''])]\<rparr>)
                   @ '':'' @ ''agent1'' @ '':'' @ ''web'' @ '':'' @ ''192.168.1.10'' @ '':''
                   @ Itoa (DiscoveryPort_Number discoveryPort),
              Name = cleanName sampleEnv (''web'' @ ''-'' @ DiscoveryPort_Name discoveryPort)
                       (Separator (sampleMesos\<lparr>taskTag := [(''web'', [''frontend''])]\<rparr>)),
              Port = toPort sampleEnv (Itoa (DiscoveryPort_Number discoveryPort)),
              Address = ''192.168.1.10'',
              Agent = toIP sampleEnv ''agent1'',
              Tags = [''frontend''] @ [DiscoveryPort_Name discoveryPort]
                     @ (if DiscoveryPort_Label discoveryPort ''tags'' \<noteq> []
                        then Split (DiscoveryPort_Label discoveryPort ''tags'') CHR '',''
                        else []),
              Check = GetCheck sampleEnv sampleNamedTask \<lparr>CheckVar_Host = toIP sampleEnv ''192.168.1.10'',
                        CheckVar_Port = Itoa (DiscoveryPort_Number discoveryPort)\<rparr>\<rparr>]
           else []))
       (enumerate 0 (DiscoveryPorts (DiscoveryInfo_Ports (Task_DiscoveryInfo sampleNamedTask)))))\<rparr>)"
    by (rule registerTask_named_ports)
      (simp_all add: sampleEnv_def sampleMesos_def sampleNamedTask_def sampleTask_def
        Task_Label_def buildRegisterTaskTags_def ToLower_web sliceContainsString_def)
  then show ?thesis
    by (simp add: sampleEnv_def sampleMesos_def sampleNamedTask_def sampleTask_def samplePort_def
        firstPortService_def DiscoveryPort_Label_def Itoa_8080)
qed

text \<open>
  C6 as stated fails: the loop over the discovery ports runs only when the discovery
  descriptor has a name. An allowed, unmarked instance with a named discovery port but no
  discovery name gets the single entry without port, and no entry for the named port.
\<close>

theorem registerTask_named_ports_counterexample:
  "DiscoveryPort_Name samplePort = ''http''
   \<and> Task_Labels (sampleTask\<lparr>Task_DiscoveryInfo := \<lparr>DiscoveryInfo_Name = [],
          DiscoveryInfo_Ports = \<lparr>DiscoveryPorts = [samplePort]\<rparr>\<rparr>\<rparr>) = []
   \<and> Allowed sampleEnv (cleanName sampleEnv ''web'' (Separator sampleMesos))
   \<and> registerTask sampleEnv sampleMesos
        (sampleTask\<lparr>Task_DiscoveryInfo := \<lparr>DiscoveryInfo_Name = [],
          DiscoveryInfo_Ports = \<lparr>DiscoveryPorts = [samplePort]\<rparr>\<rparr>\<rparr>) ''agent1''
       = (None, sampleMesos\<lparr>Registry :=
           [Call_Register \<lparr>ID = ''mc:agent1-web:192.168.1.10'', Name = ''web'', Port = 0,
              Address = ''192.168.1.10'', Agent = ''agent1'', Tags = [], Check = None\<rparr>]\<rparr>)"
  by (simp add: registerTask_def sampleTask_def samplePort_def sampleEnv_def sampleMesos_def
      Task_Label_def buildRegisterTaskTags_def Registry_Register_def noPortService_def Let_def)

lemma registerTask_marked:
  "Task_Label t ''consul'' \<noteq> None \<Longrightarrow>
   registerTask E m t agent = (Some (errorString ''Application with consul label''), m)"
  unfolding registerTask_def by simp

lemma registerTask_refused:
  "Task_Label t ''consul'' = None \<Longrightarrow>
   \<not> Allowed E (case Task_Label t ''overrideTaskName'' of
                  Some v \<Rightarrow> cleanName E v (Separator m)
                | None \<Rightarrow> cleanName E (Task_ID t) (Separator m)) \<Longrightarrow>
   registerTask E m t agent = (Some (errorString ''Task not allowed to be registered''), m)"
  unfolding registerTask_def Let_def by simp

lemma list_all_concat_map:
  "(\<And>x. list_all P (f x)) \<Longrightarrow> list_all P (concat (map f xs))"
  by (induction xs) simp_all

text \<open>
  C3 (amended). No desired entry produced by the Task Reconciler passes through the
  cache-diff decision: whatever the instance, every registry call that registerTask makes
  is a Register call (it never calls CacheLookup, CacheMark or CacheDelete), and the earlier
  call history is kept. The unqualified base-name entry (the no-ports entry and the
  first-port primary entry) is registered unconditionally, like the named-port entries.
\<close>

theorem registerTask_only_registers:
  "\<exists>cs. snd (registerTask E m t agent) = m\<lparr>Registry := Registry m @ cs\<rparr>
        \<and> list_all isRegister cs"
proof (cases "Task_Label t ''consul'' = None")
  case False
  then have "snd (registerTask E m t agent) = m\<lparr>Registry := Registry m @ []\<rparr>"
    by (simp add: registerTask_marked)
  moreover have "list_all isRegister []" by simp
  ultimately show ?thesis by blast
next
  case True
  define tname where "tname = (case Task_Label t ''overrideTaskName'' of
                  Some v \<Rightarrow> cleanName E v (Separator m)
                | None \<Rightarrow> cleanName E (Task_ID t) (Separator m))"
  define address where "address = IP E t (IpOrder m)"
  define tags where "tags = buildRegisterTaskTags tname
                  (case Task_Label t ''tags'' of Some l \<Rightarrow> Split l CHR '','' | None \<Rightarrow> [])
                  (taskTag m)"
  show ?thesis
  proof (cases "Allowed E tname")
    case False
    then have "snd (registerTask E m t agent) = m\<lparr>Registry := Registry m @ []\<rparr>"
      using True by (simp add: registerTask_refused tname_def)
    moreover have "list_all isRegister []" by simp
    ultimately show ?thesis by blast
  next
    case allowed: True
    have u: "\<forall>l \<in> set (Task_Labels t). Key l \<noteq> ''consul''"
      using True by (simp add: Task_Label_def labelValue_None_iff)
    note r = registerTask_allowed [OF u tname_def allowed address_def tags_def, of agent]
    show ?thesis
    proof (cases "DiscoveryInfo_Name (Task_DiscoveryInfo t) = []")
      case True
      then have "snd (registerTask E m t agent) = m\<lparr>Registry := Registry m @
          [Call_Register (noPortService E m t agent tname address tags)]\<rparr>"
        unfolding r by (simp add: Registry_Register_def)
      moreover have "list_all isRegister [Call_Register (noPortService E m t agent tname address tags)]"
        by simp
      ultimately show ?thesis by blast
    next
      case False
      define f where "f = (\<lambda>(k :: nat, dp).
        (if k = 0 then [Call_Register (firstPortService E t agent tname address tags dp)] else [])
        @ (if DiscoveryPort_Name dp \<noteq> []
           then [Call_Register (namedPortService E m t agent tname address tags dp)] else []))"
      have "snd (registerTask E m t agent) = m\<lparr>Registry := Registry m @ concat (map f
          (enumerate 0 (DiscoveryPorts (DiscoveryInfo_Ports (Task_DiscoveryInfo t)))))\<rparr>"
        unfolding r registerTask_ports_calls f_def using False by simp
      moreover have "list_all isRegister (f x)" for x
        by (cases x) (simp add: f_def)
      then have "list_all isRegister (concat (map f
          (enumerate 0 (DiscoveryPorts (DiscoveryInfo_Ports (Task_DiscoveryInfo t))))))"
        by (rule list_all_concat_map)
      ultimately show ?thesis by blast
    qed
  qed
qed

theorem registerTask_only_registers_witness:
  "\<exists>cs. snd (registerTask sampleEnv sampleMesos sampleNamedTask ''agent1'')
          = sampleMesos\<lparr>Registry := Registry sampleMesos @ cs\<rparr>
        \<and> list_all isRegister cs"
  by (rule registerTask_only_registers)

text \<open>
  C3 as stated fails: with the base-name entry of an instance already in the cache under
  the same tags, the cache-diff decision looks the entry up and marks it, without a
  Register call; registerTask makes no lookup and registers the entry.
\<close>

theorem registerTask_cache_counterexample:
  "CacheLookup sampleTaskEnv (Registry sampleMesos) (ID sampleTaskEntry) = Some sampleTaskEntry
   \<and> registerHost sampleTaskEnv sampleMesos sampleTaskEntry =
       sampleMesos\<lparr>Registry := [Call_CacheLookup (ID sampleTaskEntry),
                                 Call_CacheMark (ID sampleTaskEntry)]\<rparr>
   \<and> registerTask sampleTaskEnv sampleMesos sampleTask ''agent1'' =
       (None, sampleMesos\<lparr>Registry := [Call_Register sampleTaskEntry]\<rparr>)"
proof (intro conjI)
  show l: "CacheLookup sampleTaskEnv (Registry sampleMesos) (ID sampleTaskEntry) = Some sampleTaskEntry"
    by (simp add: sampleTaskEnv_def)
  show "registerHost sampleTaskEnv sampleMesos sampleTaskEntry =
       sampleMesos\<lparr>Registry := [Call_CacheLookup (ID sampleTaskEntry),
                                 Call_CacheMark (ID sampleTaskEntry)]\<rparr>"
    using l by (simp add: registerHost_def Registry_CacheLookup_def Registry_CacheMark_def
        sliceEq_def sampleTaskEntry_def sampleMesos_def)
  show "registerTask sampleTaskEnv sampleMesos sampleTask ''agent1'' =
       (None, sampleMesos\<lparr>Registry := [Call_Register sampleTaskEntry]\<rparr>)"
    by (simp add: registerTask_def sampleTask_def sampleTaskEnv_def sampleEnv_def sampleMesos_def
        sampleTaskEntry_def Task_Label_def buildRegisterTaskTags_def Registry_Register_def
        noPortService_def Let_def)
qed

text \<open>
  C4. Every identifier built by the reconcilers is meant to begin with the configured
  service-id prefix followed by a colon; the comment on LoadCache says so of all services
  created by the program. The identifier of the first-port primary task entry does not:
  registerTask builds it from the fixed prefix \<open>mesos-consul\<close>. With the configured prefix
  \<open>mc\<close>, the primary entry of the sample instance is registered under
  \<open>mesos-consul:agent1:web:8080\<close>, which does not begin with \<open>mc:\<close>, while the
  named-port entry of the same port is registered under \<open>mc:agent1:web:192.168.1.10:8080\<close>.
\<close>

theorem registerTask_first_port_id:
  "ServiceIdPrefix sampleMesos = ''mc''
   \<and> registerTask sampleEnv sampleMesos sampleNamedTask ''agent1'' =
     (None, sampleMesos\<lparr>Registry :=
        [Call_Register \<lparr>ID = ''mesos-consul:agent1:web:8080'', Name = ''web'', Port = 8080,
           Address = ''192.168.1.10'', Agent = ''agent1'', Tags = [], Check = None\<rparr>,
         Call_Register \<lparr>ID = ''mc:agent1:web:192.168.1.10:8080'', Name = ''web-http'',
           Port = 8080, Address = ''192.168.1.10'', Agent = ''agent1'',
           Tags = [''http'', ''a'', ''b''], Check = None\<rparr>]\<rparr>)
   \<and> \<not> prefix (ServiceIdPrefix sampleMesos @ '':'') ''mesos-consul:agent1:web:8080''"
proof (intro conjI)
  show "ServiceIdPrefix sampleMesos = ''mc''"
    by (simp add: sampleMesos_def)
  show "\<not> prefix (ServiceIdPrefix sampleMesos @ '':'') ''mesos-consul:agent1:web:8080''"
    by (simp add: sampleMesos_def)
  have "registerTask sampleEnv sampleMesos sampleNamedTask ''agent1'' =
     (if DiscoveryInfo_Name (Task_DiscoveryInfo sampleNamedTask) \<noteq> [] then
        (None, registerTask_ports sampleEnv sampleNamedTask ''agent1'' ''web'' ''192.168.1.10'' [] 0
                 (DiscoveryPorts (DiscoveryInfo_Ports (Task_DiscoveryInfo sampleNamedTask)))
                 sampleMesos)
      else (None, Registry_Register sampleMesos
              (noPortService sampleEnv sampleMesos sampleNamedTask ''agent1'' ''web''
                 ''192.168.1.10'' [])))"
    by (rule registerTask_allowed)
      (simp_all add: sampleEnv_def sampleMesos_def sampleNamedTask_def sampleTask_def
        Task_Label_def buildRegisterTaskTags_def)
  then show "registerTask sampleEnv sampleMesos sampleNamedTask ''agent1'' =
     (None, sampleMesos\<lparr>Registry :=
        [Call_Register \<lparr>ID = ''mesos-consul:agent1:web:8080'', Name = ''web'', Port = 8080,
           Address = ''192.168.1.10'', Agent = ''agent1'', Tags = [], Check = None\<rparr>,
         Call_Register \<lparr>ID = ''mc:agent1:web:192.168.1.10:8080'', Name = ''web-http'',
           Port = 8080, Address = ''192.168.1.10'', Agent = ''agent1'',
           Tags = [''http'', ''a'', ''b''], Check = None\<rparr>]\<rparr>)"
    unfolding registerTask_ports_calls
    by (simp add: sampleEnv_def sampleMesos_def sampleNamedTask_def sampleTask_def samplePort_def
        firstPortService_def namedPortService_def DiscoveryPort_Label_def Itoa_8080 Let_def)
qed

end
